theory Spec2Isabelle
  imports Main
begin

section \<open>Exceptions\<close>

text \<open>
  The Python exceptions the two modules can raise or let through. \<open>IOError\<close> is
  Python 3's \<open>OSError\<close> (the classes are aliases); its argument is the error number
  that paramiko or the operating system reports. \<open>RetryError\<close> is what the retry
  decorator raises when it gives up: it carries the number of the last attempt and
  the exception of that attempt.
\<close>

datatype errno = ENOENT | EEXIST | ENOTDIR | EISDIR | EACCES | EFAILURE

datatype exn =
    IOError errno
  | RuntimeError string
  | ValueError string
  | TypeError
  | AttributeError
  | KeyError string
  | RetryError nat exn
  | OtherError string

section \<open>Configuration documents and \<open>check_config\<close>\<close>

text \<open>
  What \<open>yaml.load\<close> returns: scalars, sequences and mappings (keys are strings).
\<close>

datatype yaml =
    YNull
  | YBool bool
  | YInt int
  | YStr string
  | YList "yaml list"
  | YDict "(string \<times> yaml) list"

text \<open>Python truthiness, as \<open>not x\<close> and \<open>if x\<close> read a loaded value.\<close>

fun truthy :: "yaml \<Rightarrow> bool" where
  "truthy YNull = False"
| "truthy (YBool b) = b"
| "truthy (YInt n) = (n \<noteq> 0)"
| "truthy (YStr s) = (s \<noteq> [])"
| "truthy (YList xs) = (xs \<noteq> [])"
| "truthy (YDict kvs) = (kvs \<noteq> [])"

text \<open>
  \<open>d.get(k, default)\<close>: only a mapping has the method; on any other value the
  attribute lookup raises \<open>AttributeError\<close>.
\<close>

fun dict_get :: "yaml \<Rightarrow> string \<Rightarrow> yaml \<Rightarrow> exn + yaml" where
  "dict_get (YDict kvs) k d = Inr (case map_of kvs k of None \<Rightarrow> d | Some v \<Rightarrow> v)"
| "dict_get YNull k d = Inl AttributeError"
| "dict_get (YBool b) k d = Inl AttributeError"
| "dict_get (YInt n) k d = Inl AttributeError"
| "dict_get (YStr s) k d = Inl AttributeError"
| "dict_get (YList xs) k d = Inl AttributeError"

text \<open>
  \<open>d[k]\<close>: \<open>KeyError\<close> on a mapping without the key, \<open>TypeError\<close> on a value that
  cannot be subscripted by a string.
\<close>

fun dict_index :: "yaml \<Rightarrow> string \<Rightarrow> exn + yaml" where
  "dict_index (YDict kvs) k = (case map_of kvs k of None \<Rightarrow> Inl (KeyError k) | Some v \<Rightarrow> Inr v)"
| "dict_index YNull k = Inl TypeError"
| "dict_index (YBool b) k = Inl TypeError"
| "dict_index (YInt n) k = Inl TypeError"
| "dict_index (YStr s) k = Inl TypeError"
| "dict_index (YList xs) k = Inl TypeError"

text \<open>
  \<open>for x in v\<close>: a sequence yields its items, a string its characters, a mapping
  its keys; \<open>None\<close>, a boolean or a number is not iterable (\<open>TypeError\<close>).
\<close>

fun py_iter :: "yaml \<Rightarrow> exn + yaml list" where
  "py_iter (YList xs) = Inr xs"
| "py_iter (YStr s) = Inr (map (\<lambda>c. YStr [c]) s)"
| "py_iter (YDict kvs) = Inr (map (\<lambda>kv. YStr (fst kv)) kvs)"
| "py_iter YNull = Inl TypeError"
| "py_iter (YBool b) = Inl TypeError"
| "py_iter (YInt n) = Inl TypeError"

text \<open>
  The loop of \<open>check_config\<close> over the mods. \<open>is_dir m\<close> stands for
  \<open>Path(f"Mods/{m}").is_dir()\<close>, a question to the local file system. The
  message of the error names the mod; here it is shortened.
\<close>

fun check_mods :: "(yaml \<Rightarrow> bool) \<Rightarrow> yaml list \<Rightarrow> exn + unit" where
  "check_mods is_dir [] = Inr ()"
| "check_mods is_dir (m # ms) =
     (if \<not> is_dir m
      then Inl (ValueError ''Mod is listed in config but was not found in the Mods/ directory.'')
      else check_mods is_dir ms)"

definition check_config :: "(yaml \<Rightarrow> bool) \<Rightarrow> yaml \<Rightarrow> exn + unit" where
  "check_config is_dir config =
     (case dict_get config ''secrets'' (YDict []) of
        Inl e \<Rightarrow> Inl e
      | Inr secrets \<Rightarrow>
          (case dict_get secrets ''digitalocean_key'' YNull of
             Inl e \<Rightarrow> Inl e
           | Inr key \<Rightarrow>
               if \<not> truthy key
               then Inl (ValueError ''Config is missing secrets.digitalocean_key'')
               else
                 (case dict_get config ''kag'' (YDict []) of
                    Inl e \<Rightarrow> Inl e
                  | Inr kag \<Rightarrow>
                      (case dict_get kag ''mods'' YNull of
                         Inl e \<Rightarrow> Inl e
                       | Inr mods \<Rightarrow>
                           (case py_iter mods of
                              Inl e \<Rightarrow> Inl e
                            | Inr ms \<Rightarrow> check_mods is_dir ms)))))"

section \<open>The persisted state and the outside world\<close>

text \<open>
  The droplet object of the provider's client library, as far as the program reads
  it: its address and its status, both filled in by \<open>create\<close> and \<open>load\<close>.
\<close>

record droplet_obj =
  ip_address :: "string option"
  status :: string

text \<open>Class \<open>State\<close>: the record that is pickled between runs.\<close>

record state =
  ssh_key_name :: "string option"
  ssh_key_uploaded :: bool
  droplet :: "droplet_obj option"
  done_droplet_setup :: bool
  done_kag_setup :: bool

definition State_init :: state where
  "State_init =
     \<lparr>ssh_key_name = None, ssh_key_uploaded = False, droplet = None,
      done_droplet_setup = False, done_kag_setup = False\<rparr>"

text \<open>
  Every call that leaves the program: the local file system, the provider's API,
  the SSH and SFTP session, the clock. The three methods of \<open>MySFTPClient\<close> appear
  here as calls (their behaviour on directory trees is the subject of the section
  on \<open>sftp.py\<close>).
\<close>

datatype call =
    PathExists string
  | Getcwd
  | Chdir
  | LoadConfigYaml
  | PickleLoad
  | PickleDump
  | LocalMkdir string
  | LocalOpen string
  | LocalWrite string
  | LocalRead string
  | LocalCopyfile string string
  | TempDirCreate
  | TempDirCleanup
  | Uuid4
  | CreateSshKeypair
  | SSHKeyCreate
  | GetAllSshkeys
  | DropletCreate
  | DropletLoad
  | DropletDestroy
  | FromPrivateKeyFile
  | SshConnect
  | ExecCommand string
  | ReadStdout string
  | RecvExitStatus string
  | OpenSftp
  | SftpFromTransport
  | SftpPut string string
  | SftpMkdir string bool
  | SftpPutDir string string
  | SftpGetRecursive string string
  | SftpClose
  | SshClose
  | TimeSleep nat
  | CheckCallSsh
  | WebinterfaceRun

datatype outcome = Raised exn | Returned | ExitStatus int | Answer bool

type_synonym event = "call \<times> outcome"

text \<open>
  The environment answers every call, and may let its answer depend on everything
  that happened before (the events so far): whether the call raises, how long it
  takes (in milliseconds), and what it returns. \<open>config_doc\<close> is the parsed
  configuration file, \<open>mod_is_dir m\<close> says whether \<open>Mods/m\<close> is a local directory.
\<close>

record env =
  raises :: "event list \<Rightarrow> call \<Rightarrow> exn option"
  took :: "event list \<Rightarrow> call \<Rightarrow> nat"
  exit_code :: "event list \<Rightarrow> call \<Rightarrow> int"
  answer :: "event list \<Rightarrow> call \<Rightarrow> bool"
  api_droplet :: "event list \<Rightarrow> droplet_obj"
  uuid :: "event list \<Rightarrow> string"
  config_doc :: yaml
  mod_is_dir :: "yaml \<Rightarrow> bool"

text \<open>
  The world a run acts on: the \<open>State\<close> object \<open>main\<close> holds, the events so far,
  the monotonic clock (milliseconds) and the content of the state file (\<open>None\<close>
  when the file does not exist).
\<close>

record world =
  st :: state
  trace :: "event list"
  clock :: nat
  state_file :: "state option"

type_synonym 'a prog = "world \<Rightarrow> (exn + 'a) \<times> world"

definition ret :: "'a \<Rightarrow> 'a prog" where
  "ret a w = (Inr a, w)"

definition raise :: "exn \<Rightarrow> 'a prog" where
  "raise e w = (Inl e, w)"

definition bind :: "'a prog \<Rightarrow> ('a \<Rightarrow> 'b prog) \<Rightarrow> 'b prog" where
  "bind m f w = (case m w of (Inl e, w') \<Rightarrow> (Inl e, w') | (Inr a, w') \<Rightarrow> f a w')"

text \<open>A block of statements: the first exception ends it.\<close>

primrec seq_all :: "unit prog list \<Rightarrow> unit prog" where
  "seq_all [] = ret ()"
| "seq_all (p # ps) = bind p (\<lambda>_. seq_all ps)"

text \<open>\<open>try: body finally: fin\<close>; an exception of \<open>fin\<close> replaces the body's.\<close>

definition try_finally :: "'a prog \<Rightarrow> unit prog \<Rightarrow> 'a prog" where
  "try_finally body fin w =
     (case body w of
        (r, w1) \<Rightarrow>
          (case fin w1 of
             (Inl e, w2) \<Rightarrow> (Inl e, w2)
           | (Inr u, w2) \<Rightarrow> (r, w2)))"

definition record_event :: "env \<Rightarrow> call \<Rightarrow> outcome \<Rightarrow> world \<Rightarrow> world" where
  "record_event E c out w =
     w\<lparr>trace := trace w @ [(c, out)], clock := clock w + took E (trace w) c\<rparr>"

text \<open>A call whose result the program does not read.\<close>

definition ext :: "env \<Rightarrow> call \<Rightarrow> unit prog" where
  "ext E c w =
     (case raises E (trace w) c of
        Some e \<Rightarrow> (Inl e, record_event E c (Raised e) w)
      | None \<Rightarrow> (Inr (), record_event E c Returned w))"

text \<open>\<open>recv_exit_status()\<close> of the command \<open>cmd\<close>.\<close>

definition recv_exit_status :: "env \<Rightarrow> string \<Rightarrow> int prog" where
  "recv_exit_status E cmd w =
     (let c = RecvExitStatus cmd in
      case raises E (trace w) c of
        Some e \<Rightarrow> (Inl e, record_event E c (Raised e) w)
      | None \<Rightarrow>
          (Inr (exit_code E (trace w) c),
           record_event E c (ExitStatus (exit_code E (trace w) c)) w))"

text \<open>A yes/no question to the local file system.\<close>

definition ask :: "env \<Rightarrow> call \<Rightarrow> bool prog" where
  "ask E c w =
     (case raises E (trace w) c of
        Some e \<Rightarrow> (Inl e, record_event E c (Raised e) w)
      | None \<Rightarrow>
          (Inr (answer E (trace w) c), record_event E c (Answer (answer E (trace w) c)) w))"

text \<open>An assignment to an attribute of the state object.\<close>

definition assign :: "(state \<Rightarrow> state) \<Rightarrow> unit prog" where
  "assign f w = (Inr (), w\<lparr>st := f (st w)\<rparr>)"

text \<open>An expression over the configuration that may raise.\<close>

definition eval_cfg :: "exn + 'a \<Rightarrow> unit prog" where
  "eval_cfg r w = (case r of Inl e \<Rightarrow> (Inl e, w) | Inr v \<Rightarrow> (Inr (), w))"

text \<open>An attribute access that raises \<open>e\<close> unless the state satisfies \<open>P\<close>.\<close>

definition require :: "(state \<Rightarrow> bool) \<Rightarrow> exn \<Rightarrow> unit prog" where
  "require P e w = (if P (st w) then (Inr (), w) else (Inl e, w))"

text \<open>\<open>config[a][b]\<close> and \<open>config[a][b][c]\<close>.\<close>

definition index2 :: "yaml \<Rightarrow> string \<Rightarrow> string \<Rightarrow> exn + yaml" where
  "index2 config a b =
     (case dict_index config a of Inl e \<Rightarrow> Inl e | Inr v \<Rightarrow> dict_index v b)"

definition index3 :: "yaml \<Rightarrow> string \<Rightarrow> string \<Rightarrow> string \<Rightarrow> exn + yaml" where
  "index3 config a b c =
     (case index2 config a b of Inl e \<Rightarrow> Inl e | Inr v \<Rightarrow> dict_index v c)"

text \<open>\<open>**v\<close> and \<open>v.items()\<close> need a mapping.\<close>

definition as_mapping :: "exn \<Rightarrow> exn + yaml \<Rightarrow> exn + (string \<times> yaml) list" where
  "as_mapping err r =
     (case r of
        Inl e \<Rightarrow> Inl e
      | Inr (YDict kvs) \<Rightarrow> Inr kvs
      | Inr _ \<Rightarrow> Inl err)"

text \<open>\<open>"; ".join(v)\<close>: \<open>v\<close> must be iterable and yield strings only.\<close>

definition is_str :: "yaml \<Rightarrow> bool" where
  "is_str v = (case v of YStr s \<Rightarrow> True | _ \<Rightarrow> False)"

definition py_join :: "exn + yaml \<Rightarrow> exn + unit" where
  "py_join r =
     (case r of
        Inl e \<Rightarrow> Inl e
      | Inr v \<Rightarrow>
          (case py_iter v of
             Inl e \<Rightarrow> Inl e
           | Inr xs \<Rightarrow> if list_all is_str xs then Inr () else Inl TypeError))"

definition iterate :: "exn + yaml \<Rightarrow> exn + yaml list" where
  "iterate r = (case r of Inl e \<Rightarrow> Inl e | Inr v \<Rightarrow> py_iter v)"

section \<open>The workflow of \<open>main.py\<close>\<close>

definition digitalocean_key :: "yaml \<Rightarrow> exn + yaml" where
  "digitalocean_key config = index2 config ''secrets'' ''digitalocean_key''"

text \<open>
  \<open>configure_ssh_key\<close>: the key's name is stored in the state before the key pair
  exists; \<open>ssh_key_uploaded\<close> is set after \<open>key.create()\<close> returned.
\<close>

definition configure_ssh_key :: "env \<Rightarrow> yaml \<Rightarrow> unit prog" where
  "configure_ssh_key E config =
     seq_all
       [bind (ask E (PathExists ''ssh_keys''))
          (\<lambda>there. if \<not> there then ext E (LocalMkdir ''ssh_keys'') else ret ()),
        ext E Uuid4,
        (\<lambda>w. assign
           (\<lambda>s. s\<lparr>ssh_key_name := Some (''one_click_kag_server_'' @ uuid E (trace w))\<rparr>) w),
        ext E CreateSshKeypair,
        ext E (LocalWrite ''ssh_keys/<name>''),
        ext E (LocalWrite ''ssh_keys/<name>.pub''),
        eval_cfg (digitalocean_key config),
        ext E SSHKeyCreate,
        assign (\<lambda>s. s\<lparr>ssh_key_uploaded := True\<rparr>)]"

text \<open>\<open>not state.ssh_key_name\<close>: \<open>None\<close> and the empty string are falsy.\<close>

definition no_key_name :: "state \<Rightarrow> bool" where
  "no_key_name s = (case ssh_key_name s of None \<Rightarrow> True | Some n \<Rightarrow> n = [])"

definition create_droplet :: "env \<Rightarrow> yaml \<Rightarrow> unit prog" where
  "create_droplet E config =
     seq_all
       [require (\<lambda>s. \<not> no_key_name s) (RuntimeError ''No ssh key configured yet''),
        eval_cfg (digitalocean_key config),
        ext E GetAllSshkeys,
        eval_cfg (digitalocean_key config),
        eval_cfg (as_mapping TypeError (dict_index config ''droplet'')),
        ext E DropletCreate,
        (\<lambda>w. assign (\<lambda>s. s\<lparr>droplet := Some (api_droplet E (trace w))\<rparr>) w)]"

text \<open>
  \<open>open_ssh_connection\<close>: the path of the key file needs the key's name
  (\<open>Path / None\<close> is a \<open>TypeError\<close>), the address is read from the droplet
  (\<open>None.ip_address\<close> is an \<open>AttributeError\<close>).
\<close>

definition open_ssh_connection :: "env \<Rightarrow> unit prog" where
  "open_ssh_connection E =
     seq_all
       [require (\<lambda>s. ssh_key_name s \<noteq> None) TypeError,
        ext E FromPrivateKeyFile,
        require (\<lambda>s. droplet s \<noteq> None) AttributeError,
        ext E SshConnect]"

text \<open>\<open>state.droplet.load()\<close>: the droplet object is refreshed in place.\<close>

definition droplet_load :: "env \<Rightarrow> unit prog" where
  "droplet_load E =
     seq_all
       [require (\<lambda>s. droplet s \<noteq> None) AttributeError,
        ext E DropletLoad,
        (\<lambda>w. assign (\<lambda>s. s\<lparr>droplet := Some (api_droplet E (trace w))\<rparr>) w)]"

definition droplet_active :: "state \<Rightarrow> bool" where
  "droplet_active s = (case droplet s of None \<Rightarrow> False | Some d \<Rightarrow> status d = ''active'')"

text \<open>The body of \<open>wait_for_droplet_to_be_active\<close>: one attempt.\<close>

definition wait_attempt :: "env \<Rightarrow> unit prog" where
  "wait_attempt E =
     seq_all
       [droplet_load E,
        require droplet_active (ValueError ''Droplet is not active yet''),
        open_ssh_connection E,
        ext E (ExecCommand ''echo hello world''),
        bind (recv_exit_status E ''echo hello world'') (\<lambda>_. ret ())]"

subsection \<open>The retry decorator\<close>

text \<open>
  \<open>time.sleep\<close>, as the retry loop calls it: a sleep lasts its time plus whatever
  the environment adds. Times are in milliseconds.
\<close>

definition time_sleep :: "env \<Rightarrow> nat \<Rightarrow> world \<Rightarrow> world" where
  "time_sleep E ms w =
     w\<lparr>trace := trace w @ [(TimeSleep ms, Returned)],
       clock := clock w + ms + took E (trace w) (TimeSleep ms)\<rparr>"

text \<open>
  Modelled from the spec: \<open>RetryWaiter.waitUntil\<close>, which the source obtains from
  the decorator \<open>@retry(wait=wait_fixed(5), stop=stop_after_delay(120))\<close> of the
  tenacity library (not under \<open>src/\<close>). The predicate is evaluated; when it fails
  and the time elapsed since the waiting began has reached the deadline, the wait
  fails with a timeout (\<open>RetryError\<close>) whose cause is that last failure; otherwise
  it sleeps for the interval, adds one to the attempt number and evaluates the
  predicate again. The deadline test is the library's \<open>stop_after_delay\<close>:
  \<open>seconds_since_start >= 120\<close>, taken when the attempt ended.
\<close>

function retry_loop :: "env \<Rightarrow> nat \<Rightarrow> nat \<Rightarrow> world \<Rightarrow> (exn + unit) \<times> world" where
  "retry_loop E start n w =
     (case wait_attempt E w of
        (Inr u, w') \<Rightarrow> (Inr u, w')
      | (Inl x, w') \<Rightarrow>
          if 120000 \<le> clock w' - start then (Inl (RetryError n x), w')
          else retry_loop E start (Suc n) (time_sleep E 5000 w'))"
  by pat_completeness auto

termination
proof (relation "measure (\<lambda>(E, start, n, w). start + 125000 - clock w)")
  fix E :: env and start n :: nat and w x w' xa
  assume a: "(x, w') = wait_attempt E w" and b: "\<not> 120000 \<le> clock w' - start"
  have "clock w \<le> clock w'"
    using a
    by (auto simp: wait_attempt_def droplet_load_def open_ssh_connection_def bind_def ret_def
        ext_def recv_exit_status_def require_def assign_def record_event_def Let_def
        split: option.splits if_splits)
  then show "((E, start, Suc n, time_sleep E 5000 w'), E, start, n, w)
       \<in> measure (\<lambda>(E, start, n, w). start + 125000 - clock w)"
    using b by (simp add: time_sleep_def)
qed simp

definition wait_for_droplet_to_be_active :: "env \<Rightarrow> unit prog" where
  "wait_for_droplet_to_be_active E w = retry_loop E (clock w) 1 w"

subsection \<open>Host setup, application setup and the commands\<close>

text \<open>
  \<open>setup_droplet\<close>: the session is closed before the exit status is looked at.
\<close>

definition setup_droplet :: "env \<Rightarrow> yaml \<Rightarrow> unit prog" where
  "setup_droplet E config =
     seq_all
       [require droplet_active (RuntimeError ''Droplet isn't active yet''),
        open_ssh_connection E,
        ext E OpenSftp,
        ext E (SftpPut ''droplet_setup.sh'' ''droplet_setup.sh''),
        ext E (SftpPut ''docker-compose.yaml'' ''docker-compose.yaml''),
        ext E (SftpPut ''Dockerfile.kag'' ''Dockerfile.kag''),
        ext E (ExecCommand ''chmod +x droplet_setup.sh''),
        bind (recv_exit_status E ''chmod +x droplet_setup.sh'') (\<lambda>_. ret ()),
        ext E (ExecCommand ''./droplet_setup.sh 2>&1''),
        ext E (ReadStdout ''./droplet_setup.sh 2>&1''),
        bind (recv_exit_status E ''./droplet_setup.sh 2>&1'')
          (\<lambda>status.
             seq_all
               [ext E SftpClose,
                ext E SshClose,
                if status \<noteq> 0 then raise (RuntimeError ''Droplet setup failed'')
                else assign (\<lambda>s. s\<lparr>done_droplet_setup := True\<rparr>)])]"

text \<open>
  The \<open>with tempfile.TemporaryDirectory()\<close> block of \<open>setup_kag\<close>: the derived
  files are written to the scratch directory and uploaded from there.
\<close>

definition setup_kag_derived_files :: "env \<Rightarrow> yaml \<Rightarrow> unit prog" where
  "setup_kag_derived_files E config =
     seq_all
       [ext E (LocalOpen ''<tmp>/autoconfig.cfg''),
        eval_cfg (as_mapping AttributeError (index2 config ''kag'' ''autoconfig'')),
        ext E (LocalWrite ''<tmp>/autoconfig.cfg''),
        ext E (LocalOpen ''<tmp>/mods.cfg''),
        eval_cfg (iterate (index2 config ''kag'' ''mods'')),
        ext E (LocalWrite ''<tmp>/mods.cfg''),
        ext E (LocalMkdir ''<tmp>/Security''),
        ext E (LocalCopyfile ''Security/seclevs.cfg'' ''<tmp>/Security/seclevs.cfg''),
        ext E (LocalCopyfile ''Security/normal.cfg'' ''<tmp>/Security/normal.cfg''),
        ext E (LocalRead ''Security/superadmin.cfg''),
        eval_cfg (py_join (index3 config ''kag'' ''security'' ''superadmins'')),
        ext E (LocalWrite ''<tmp>/Security/superadmin.cfg''),
        ext E (LocalRead ''Security/admin.cfg''),
        eval_cfg (py_join (index3 config ''kag'' ''security'' ''admins'')),
        ext E (LocalWrite ''<tmp>/Security/admin.cfg''),
        ext E (SftpPut ''<tmp>/autoconfig.cfg'' ''autoconfig.cfg''),
        ext E (SftpPut ''<tmp>/mods.cfg'' ''mods.cfg''),
        ext E (SftpMkdir ''Security'' True),
        ext E (SftpPutDir ''<tmp>/Security'' ''Security'')]"

text \<open>
  \<open>setup_kag\<close>: the exit status of the restart is looked at first; \<open>ssh.close()\<close>
  comes after the \<open>raise\<close>.
\<close>

definition setup_kag :: "env \<Rightarrow> yaml \<Rightarrow> unit prog" where
  "setup_kag E config =
     seq_all
       [open_ssh_connection E,
        ext E SftpFromTransport,
        ext E (SftpPut ''docker-compose.yaml'' ''docker-compose.yaml''),
        ext E (SftpMkdir ''Mods'' True),
        ext E (SftpPutDir ''Mods'' ''Mods''),
        ext E (SftpMkdir ''Cache'' True),
        ext E (SftpPutDir ''Cache'' ''Cache''),
        ext E TempDirCreate,
        try_finally (setup_kag_derived_files E config) (ext E TempDirCleanup),
        ext E (ExecCommand ''docker-compose down 2>&1''),
        ext E (ReadStdout ''docker-compose down 2>&1''),
        bind (recv_exit_status E ''docker-compose down 2>&1'') (\<lambda>_. ret ()),
        ext E (ExecCommand ''docker-compose up -d 2>&1''),
        ext E (ReadStdout ''docker-compose up -d 2>&1''),
        bind (recv_exit_status E ''docker-compose up -d 2>&1'')
          (\<lambda>status.
             if status \<noteq> 0 then raise (RuntimeError ''Failed to setup KAG'')
             else seq_all [ext E SshClose, assign (\<lambda>s. s\<lparr>done_kag_setup := True\<rparr>)])]"

definition follow_kag_logs :: "env \<Rightarrow> unit prog" where
  "follow_kag_logs E =
     seq_all
       [open_ssh_connection E,
        ext E (ExecCommand ''docker-compose logs -f kag 2>&1''),
        ext E (ReadStdout ''docker-compose logs -f kag 2>&1'')]"

definition run_command_up :: "env \<Rightarrow> yaml \<Rightarrow> unit prog" where
  "run_command_up E config =
     seq_all
       [(\<lambda>w. if \<not> ssh_key_uploaded (st w) then configure_ssh_key E config w else ret () w),
        (\<lambda>w. if droplet (st w) \<noteq> None then ret () w
              else seq_all [create_droplet E config, wait_for_droplet_to_be_active E] w),
        droplet_load E,
        (\<lambda>w. if done_droplet_setup (st w) then ret () w else setup_droplet E config w),
        (\<lambda>w. if done_kag_setup (st w) then ret () w else setup_kag E config w)]"

definition run_command_down :: "env \<Rightarrow> yaml \<Rightarrow> unit prog" where
  "run_command_down E config =
     seq_all
       [open_ssh_connection E,
        ext E SftpFromTransport,
        ext E (SftpGetRecursive ''Cache'' ''Cache''),
        require (\<lambda>s. droplet s \<noteq> None) AttributeError,
        ext E DropletDestroy]"

definition exec_ssh :: "env \<Rightarrow> unit prog" where
  "exec_ssh E =
     seq_all
       [require (\<lambda>s. ssh_key_name s \<noteq> None) TypeError,
        require (\<lambda>s. droplet s \<noteq> None) AttributeError,
        ext E CheckCallSsh]"

text \<open>
  The two checks of \<open>run_command_rcon\<close>: \<open>.get("sv_tcpr") != 1\<close> (in Python
  \<open>True == 1\<close>) and \<open>not .get("sv_rconpassword")\<close>.
\<close>

definition rcon_tcpr_check :: "yaml \<Rightarrow> exn + unit" where
  "rcon_tcpr_check config =
     (case index2 config ''kag'' ''autoconfig'' of
        Inl e \<Rightarrow> Inl e
      | Inr a \<Rightarrow>
          (case dict_get a ''sv_tcpr'' YNull of
             Inl e \<Rightarrow> Inl e
           | Inr v \<Rightarrow>
               if v \<noteq> YInt 1 \<and> v \<noteq> YBool True
               then Inl (RuntimeError ''sv_tcpr is not set in autoconfig. Set it to 1 to use RCON.'')
               else Inr ()))"

definition rcon_password_check :: "yaml \<Rightarrow> exn + unit" where
  "rcon_password_check config =
     (case index2 config ''kag'' ''autoconfig'' of
        Inl e \<Rightarrow> Inl e
      | Inr a \<Rightarrow>
          (case dict_get a ''sv_rconpassword'' YNull of
             Inl e \<Rightarrow> Inl e
           | Inr v \<Rightarrow>
               if \<not> truthy v
               then Inl (RuntimeError ''sv_rconpassword is not set in autoconfig. Set it to use RCON.'')
               else Inr ()))"

definition run_command_rcon :: "env \<Rightarrow> yaml \<Rightarrow> unit prog" where
  "run_command_rcon E config =
     seq_all
       [eval_cfg (rcon_tcpr_check config),
        eval_cfg (rcon_password_check config),
        require (\<lambda>s. droplet s \<noteq> None) AttributeError,
        eval_cfg (index3 config ''kag'' ''autoconfig'' ''sv_rconpassword''),
        ext E TempDirCreate,
        try_finally
          (seq_all
             [ext E (LocalOpen ''<tmp>/config.toml''),
              ext E (LocalWrite ''<tmp>/config.toml''),
              ext E WebinterfaceRun])
          (ext E TempDirCleanup)]"

subsection \<open>\<open>main\<close>\<close>

text \<open>The \<open>choices\<close> of the command argument.\<close>

datatype command = Up | Down | KagLogs | RestartKag | Ssh | Rcon

text \<open>\<open>State.load\<close> and \<open>State.save\<close>, on the state file of the world.\<close>

definition State_load :: "env \<Rightarrow> unit prog" where
  "State_load E w =
     (case state_file w of
        Some s \<Rightarrow> bind (ext E PickleLoad) (\<lambda>_. assign (\<lambda>_. s)) w
      | None \<Rightarrow> assign (\<lambda>_. State_init) w)"

definition State_save :: "env \<Rightarrow> unit prog" where
  "State_save E w =
     (case ext E PickleDump w of
        (Inl e, w') \<Rightarrow> (Inl e, w')
      | (Inr u, w') \<Rightarrow> (Inr (), w'\<lparr>state_file := Some (st w')\<rparr>))"

text \<open>The branches of the \<open>try\<close> block.\<close>

fun dispatch :: "env \<Rightarrow> yaml \<Rightarrow> command \<Rightarrow> unit prog" where
  "dispatch E config Up =
     seq_all [run_command_up E config, require (\<lambda>s. droplet s \<noteq> None) AttributeError]"
| "dispatch E config Down =
     seq_all [run_command_down E config, assign (\<lambda>_. State_init)]"
| "dispatch E config RestartKag = setup_kag E config"
| "dispatch E config KagLogs = follow_kag_logs E"
| "dispatch E config Ssh = exec_ssh E"
| "dispatch E config Rcon = run_command_rcon E config"

text \<open>
  What \<open>main\<close> does before the \<open>try\<close> block: the configuration file must exist, it
  is loaded, the state is loaded, \<open>done_kag_setup\<close> is reset and the configuration
  is checked. It yields the configuration.
\<close>

definition main_prelude :: "env \<Rightarrow> yaml prog" where
  "main_prelude E =
     bind (ask E (PathExists ''config.yaml''))
       (\<lambda>there.
          if \<not> there then raise (RuntimeError ''Config file does not exist'')
          else
            bind
              (seq_all
                 [ext E Getcwd,
                  ext E LoadConfigYaml,
                  State_load E,
                  assign (\<lambda>s. s\<lparr>done_kag_setup := False\<rparr>),
                  eval_cfg (check_config (mod_is_dir E) (config_doc E))])
              (\<lambda>_. ret (config_doc E)))"

definition main :: "env \<Rightarrow> command \<Rightarrow> unit prog" where
  "main E cmd =
     bind (main_prelude E)
       (\<lambda>config.
          try_finally (dispatch E config cmd) (seq_all [ext E Chdir, State_save E]))"

section \<open>The directory mirror of \<open>sftp.py\<close>\<close>

text \<open>
  A file system, local or remote, is a tree: a file with its content, or a
  directory with its entries in listing order (a new entry goes to the end). A
  path is the list of the names on the way from the root: \<open>os.path.join(source,
  item)\<close> and \<open>'%s/%s' % (target, item)\<close> both add one name at the end.
\<close>

type_synonym path = "string list"

datatype node = File string | Dir "(string \<times> node) list"

text \<open>The node at a path, if there is one.\<close>

fun lookup :: "node \<Rightarrow> path \<Rightarrow> node option" where
  "lookup n [] = Some n"
| "lookup (File c) (x # p) = None"
| "lookup (Dir es) (x # p) = (case map_of es x of None \<Rightarrow> None | Some c \<Rightarrow> lookup c p)"

text \<open>
  \<open>put_node p n t\<close> makes \<open>n\<close> the node at \<open>p\<close>, replacing what is there; the
  parent of \<open>p\<close> must be a directory of \<open>t\<close>.
\<close>

fun set_entry :: "string \<Rightarrow> node \<Rightarrow> (string \<times> node) list \<Rightarrow> (string \<times> node) list" where
  "set_entry x n [] = [(x, n)]"
| "set_entry x n ((y, c) # es) = (if y = x then (x, n) # es else (y, c) # set_entry x n es)"

fun put_node :: "path \<Rightarrow> node \<Rightarrow> node \<Rightarrow> node option" where
  "put_node [] n t = None"
| "put_node (x # p) n (File c) = None"
| "put_node (x # p) n (Dir es) =
     (if p = [] then Some (Dir (set_entry x n es))
      else (case map_of es x of
              None \<Rightarrow> None
            | Some c \<Rightarrow>
                (case put_node p n c of
                   None \<Rightarrow> None
                 | Some c' \<Rightarrow> Some (Dir (set_entry x c' es)))))"


subsection \<open>The primitives of the SFTP client and of \<open>os\<close>\<close>

text \<open>
  What the server and the local operating system do, as the client sees it: every
  failure is an \<open>IOError\<close>. \<open>sftp_mkdir\<close> is \<open>paramiko.SFTPClient.mkdir\<close>: it fails
  when the path exists (the server answers with a plain failure) or when the
  parent is missing or is a file. The functions return either the exception or the
  file system after the call.
\<close>

definition parent_error :: "node \<Rightarrow> path \<Rightarrow> errno" where
  "parent_error fs p =
     (case lookup fs (butlast p) of Some (File c) \<Rightarrow> ENOTDIR | _ \<Rightarrow> ENOENT)"

definition sftp_mkdir :: "node \<Rightarrow> path \<Rightarrow> exn + node" where
  "sftp_mkdir fs p =
     (case lookup fs p of
        Some n \<Rightarrow> Inl (IOError EFAILURE)
      | None \<Rightarrow>
          (case put_node p (Dir []) fs of
             Some fs' \<Rightarrow> Inr fs'
           | None \<Rightarrow> Inl (IOError (parent_error fs p))))"

definition write_file :: "node \<Rightarrow> path \<Rightarrow> string \<Rightarrow> exn + node" where
  "write_file fs p c =
     (case lookup fs p of
        Some (Dir es) \<Rightarrow> Inl (IOError EISDIR)
      | _ \<Rightarrow>
          (case put_node p (File c) fs of
             Some fs' \<Rightarrow> Inr fs'
           | None \<Rightarrow> Inl (IOError (parent_error fs p))))"

definition read_file :: "node \<Rightarrow> path \<Rightarrow> exn + string" where
  "read_file fs p =
     (case lookup fs p of
        Some (File c) \<Rightarrow> Inr c
      | Some (Dir es) \<Rightarrow> Inl (IOError EISDIR)
      | None \<Rightarrow> Inl (IOError ENOENT))"

definition is_directory :: "node \<Rightarrow> bool" where
  "is_directory n = (case n of Dir es \<Rightarrow> True | File c \<Rightarrow> False)"

definition listdir_attr :: "node \<Rightarrow> path \<Rightarrow> exn + (string \<times> bool) list" where
  "listdir_attr fs p =
     (case lookup fs p of
        Some (Dir es) \<Rightarrow> Inr (map (\<lambda>e. (fst e, is_directory (snd e))) es)
      | Some (File c) \<Rightarrow> Inl (IOError ENOTDIR)
      | None \<Rightarrow> Inl (IOError ENOENT))"

definition os_listdir :: "node \<Rightarrow> path \<Rightarrow> exn + string list" where
  "os_listdir fs p =
     (case lookup fs p of
        Some (Dir es) \<Rightarrow> Inr (map fst es)
      | Some (File c) \<Rightarrow> Inl (IOError ENOTDIR)
      | None \<Rightarrow> Inl (IOError ENOENT))"

definition os_path_isfile :: "node \<Rightarrow> path \<Rightarrow> bool" where
  "os_path_isfile fs p = (case lookup fs p of Some (File c) \<Rightarrow> True | _ \<Rightarrow> False)"

definition os_path_isdir :: "node \<Rightarrow> path \<Rightarrow> bool" where
  "os_path_isdir fs p = (case lookup fs p of Some (Dir es) \<Rightarrow> True | _ \<Rightarrow> False)"

text \<open>
  \<open>os.makedirs(dest, exist_ok=True)\<close>: missing directories on the way are created;
  an existing directory is accepted, a file in the way is an error.
\<close>

fun nested_dirs :: "path \<Rightarrow> node" where
  "nested_dirs [] = Dir []"
| "nested_dirs (x # p) = Dir [(x, nested_dirs p)]"

fun os_makedirs :: "node \<Rightarrow> path \<Rightarrow> exn + node" where
  "os_makedirs (Dir es) [] = Inr (Dir es)"
| "os_makedirs (File c) [] = Inl (IOError EEXIST)"
| "os_makedirs (File c) (x # p) = Inl (IOError ENOTDIR)"
| "os_makedirs (Dir es) (x # p) =
     (case map_of es x of
        None \<Rightarrow> Inr (Dir (es @ [(x, nested_dirs p)]))
      | Some c \<Rightarrow>
          (case os_makedirs c p of
             Inl e \<Rightarrow> Inl e
           | Inr c' \<Rightarrow> Inr (Dir (set_entry x c' es))))"

text \<open>
  \<open>put(localpath, remotepath)\<close> reads the local file and writes the remote one;
  \<open>get(remotepath, localpath)\<close> opens the local file for writing first and then
  reads the remote one.
\<close>

definition sftp_put :: "node \<Rightarrow> path \<Rightarrow> node \<Rightarrow> path \<Rightarrow> exn + node" where
  "sftp_put L localpath R remotepath =
     (case read_file L localpath of
        Inl e \<Rightarrow> Inl e
      | Inr c \<Rightarrow> write_file R remotepath c)"

definition sftp_get :: "node \<Rightarrow> path \<Rightarrow> node \<Rightarrow> path \<Rightarrow> exn + node" where
  "sftp_get R remotepath L localpath =
     (case write_file L localpath [] of
        Inl e \<Rightarrow> Inl e
      | Inr L0 \<Rightarrow>
          (case read_file R remotepath of
             Inl e \<Rightarrow> Inl e
           | Inr c \<Rightarrow> write_file L0 localpath c))"

subsection \<open>\<open>MySFTPClient\<close>\<close>

text \<open>
  \<open>mkdir\<close>: the handler catches \<open>IOError\<close>, whatever its reason, and swallows it
  when \<open>ignore_existing\<close> is set.
\<close>

definition mkdir :: "node \<Rightarrow> path \<Rightarrow> bool \<Rightarrow> exn + node" where
  "mkdir R path ignore_existing =
     (case sftp_mkdir R path of
        Inl (IOError n) \<Rightarrow> if ignore_existing then Inr R else Inl (IOError n)
      | Inl e \<Rightarrow> Inl e
      | Inr R' \<Rightarrow> Inr R')"

definition dir_weight :: "node \<Rightarrow> path \<Rightarrow> nat" where
  "dir_weight fs p = (case lookup fs p of Some (Dir es) \<Rightarrow> 2 * size (Dir es) | _ \<Rightarrow> 0)"

definition walk_weight :: "node \<Rightarrow> path \<Rightarrow> nat" where
  "walk_weight fs p = (case lookup fs p of Some (Dir es) \<Rightarrow> 2 * size (Dir es) + 1 | _ \<Rightarrow> 0)"

definition put_rank ::
    "node \<times> path \<times> path \<times> node + node \<times> path \<times> path \<times> string list \<times> node \<Rightarrow> nat" where
  "put_rank a =
     (case a of
        Inl (L, source, target, R) \<Rightarrow> walk_weight L source
      | Inr (L, source, target, items, R) \<Rightarrow> dir_weight L source)"

definition put_todo ::
    "node \<times> path \<times> path \<times> node + node \<times> path \<times> path \<times> string list \<times> node \<Rightarrow> nat" where
  "put_todo a =
     (case a of
        Inl (L, source, target, R) \<Rightarrow> 0
      | Inr (L, source, target, items, R) \<Rightarrow> length items)"

text \<open>
  \<open>put_dir\<close>, with its loop over \<open>os.listdir(source)\<close> as \<open>put_items\<close>. \<open>L\<close> is the
  local file system, \<open>R\<close> the remote one.
\<close>

text \<open>
  \<open>put_dir\<close> and \<open>get_recursive\<close> call themselves on a path one name longer. They
  terminate because the directory found at that path is smaller than the one at
  the path they were called with; a path that leads to no directory ends the
  recursion with an exception of the listing.
\<close>

function put_dir :: "node \<Rightarrow> path \<Rightarrow> path \<Rightarrow> node \<Rightarrow> exn + node"
  and put_items :: "node \<Rightarrow> path \<Rightarrow> path \<Rightarrow> string list \<Rightarrow> node \<Rightarrow> exn + node"
where
  "put_dir L source target R =
     (case os_listdir L source of
        Inl e \<Rightarrow> Inl e
      | Inr items \<Rightarrow> put_items L source target items R)"
| "put_items L source target [] R = Inr R"
| "put_items L source target (item # items) R =
     (if os_path_isfile L (source @ [item])
      then (case sftp_put L (source @ [item]) R (target @ [item]) of
              Inl e \<Rightarrow> Inl e
            | Inr R' \<Rightarrow> put_items L source target items R')
      else (case mkdir R (target @ [item]) True of
              Inl e \<Rightarrow> Inl e
            | Inr R' \<Rightarrow>
                (case put_dir L (source @ [item]) (target @ [item]) R' of
                   Inl e \<Rightarrow> Inl e
                 | Inr R'' \<Rightarrow> put_items L source target items R'')))"
  by pat_completeness auto

termination
proof -
  have size_child: "map_of es x = Some c \<Longrightarrow> size c < size (Dir es)"
    for es :: "(string \<times> node) list" and x c
    by (induction es) (auto split: if_splits)
  have lookup_snoc: "lookup t (p @ [x]) = Some c \<Longrightarrow>
      \<exists>es. lookup t p = Some (Dir es) \<and> map_of es x = Some c" for t p x c
  proof (induction t p rule: lookup.induct)
    case (1 n)
    then show ?case by (cases n) (auto split: option.splits)
  next
    case (2 c y p)
    then show ?case by simp
  next
    case (3 es y p)
    then show ?case by (auto split: option.splits)
  qed
  have child: "walk_weight fs (p @ [x]) \<le> dir_weight fs p" for fs p x
  proof (cases "lookup fs (p @ [x])")
    case None
    then show ?thesis by (simp add: walk_weight_def)
  next
    case (Some c)
    then obtain es where e: "lookup fs p = Some (Dir es)" "map_of es x = Some c"
      by (blast dest: lookup_snoc)
    have "size c < size (Dir es)" using e(2) by (rule size_child)
    then show ?thesis using Some e by (cases c) (simp_all add: walk_weight_def dir_weight_def)
  qed
  have listed: "os_listdir fs p = Inr items \<Longrightarrow> dir_weight fs p < walk_weight fs p"
    for fs p items
    by (auto simp: os_listdir_def walk_weight_def dir_weight_def
        split: option.splits node.splits)
  show ?thesis
  proof (relation "measures [put_rank, put_todo]")
    fix L source target R items
    assume "os_listdir L source = Inr items"
    then show "(Inr (L, source, target, items, R), Inl (L, source, target, R))
        \<in> measures [put_rank, put_todo]"
      by (simp add: put_rank_def listed)
  next
    fix L source target item items R R'
    show "(Inl (L, source @ [item], target @ [item], R'),
           Inr (L, source, target, item # items, R))
        \<in> measures [put_rank, put_todo]"
      using child [of L source item] by (auto simp: put_rank_def put_todo_def)
  qed (auto simp: put_rank_def put_todo_def)
qed

definition get_rank ::
    "node \<times> path \<times> path \<times> node + node \<times> path \<times> path \<times> (string \<times> bool) list \<times> node \<Rightarrow> nat" where
  "get_rank a =
     (case a of
        Inl (R, path, dest, L) \<Rightarrow> walk_weight R path
      | Inr (R, path, dest, items, L) \<Rightarrow> dir_weight R path)"

definition get_todo ::
    "node \<times> path \<times> path \<times> node + node \<times> path \<times> path \<times> (string \<times> bool) list \<times> node \<Rightarrow> nat" where
  "get_todo a =
     (case a of
        Inl (R, path, dest, L) \<Rightarrow> 0
      | Inr (R, path, dest, items, L) \<Rightarrow> length items)"

text \<open>
  \<open>get_recursive\<close>, with its loop over \<open>item_list\<close> as \<open>get_items\<close>; an item is a
  file name with the S_ISDIR bit of its mode.
\<close>

function get_recursive :: "node \<Rightarrow> path \<Rightarrow> path \<Rightarrow> node \<Rightarrow> exn + node"
  and get_items :: "node \<Rightarrow> path \<Rightarrow> path \<Rightarrow> (string \<times> bool) list \<Rightarrow> node \<Rightarrow> exn + node"
where
  "get_recursive R path dest L =
     (case listdir_attr R path of
        Inl e \<Rightarrow> Inl e
      | Inr item_list \<Rightarrow>
          (case (if \<not> os_path_isdir L dest then os_makedirs L dest else Inr L) of
             Inl e \<Rightarrow> Inl e
           | Inr L' \<Rightarrow> get_items R path dest item_list L'))"
| "get_items R path dest [] L = Inr L"
| "get_items R path dest (item # items) L =
     (if snd item
      then (case get_recursive R (path @ [fst item]) (dest @ [fst item]) L of
              Inl e \<Rightarrow> Inl e
            | Inr L' \<Rightarrow> get_items R path dest items L')
      else (case sftp_get R (path @ [fst item]) L (dest @ [fst item]) of
              Inl e \<Rightarrow> Inl e
            | Inr L' \<Rightarrow> get_items R path dest items L'))"
  by pat_completeness auto

termination
proof -
  have size_child: "map_of es x = Some c \<Longrightarrow> size c < size (Dir es)"
    for es :: "(string \<times> node) list" and x c
    by (induction es) (auto split: if_splits)
  have lookup_snoc: "lookup t (p @ [x]) = Some c \<Longrightarrow>
      \<exists>es. lookup t p = Some (Dir es) \<and> map_of es x = Some c" for t p x c
  proof (induction t p rule: lookup.induct)
    case (1 n)
    then show ?case by (cases n) (auto split: option.splits)
  next
    case (2 c y p)
    then show ?case by simp
  next
    case (3 es y p)
    then show ?case by (auto split: option.splits)
  qed
  have child: "walk_weight fs (p @ [x]) \<le> dir_weight fs p" for fs p x
  proof (cases "lookup fs (p @ [x])")
    case None
    then show ?thesis by (simp add: walk_weight_def)
  next
    case (Some c)
    then obtain es where e: "lookup fs p = Some (Dir es)" "map_of es x = Some c"
      by (blast dest: lookup_snoc)
    have "size c < size (Dir es)" using e(2) by (rule size_child)
    then show ?thesis using Some e by (cases c) (simp_all add: walk_weight_def dir_weight_def)
  qed
  have listed: "listdir_attr fs p = Inr items \<Longrightarrow> dir_weight fs p < walk_weight fs p"
    for fs p items
    by (auto simp: listdir_attr_def walk_weight_def dir_weight_def
        split: option.splits node.splits)
  show ?thesis
  proof (relation "measures [get_rank, get_todo]")
    fix R path dest L item_list L'
    assume "listdir_attr R path = Inr item_list"
    then show "(Inr (R, path, dest, item_list, L'), Inl (R, path, dest, L))
        \<in> measures [get_rank, get_todo]"
      by (simp add: get_rank_def listed)
  next
    fix R path dest item items L
    show "(Inl (R, path @ [fst item], dest @ [fst item], L),
           Inr (R, path, dest, item # items, L))
        \<in> measures [get_rank, get_todo]"
      using child [of R path "fst item"] by (auto simp: get_rank_def get_todo_def)
  qed (auto simp: get_rank_def get_todo_def)
qed

section \<open>Predicates on runs and concrete inputs\<close>

text \<open>
  The definitions the statements below are written with: what it means for a
  program to keep a relation, classes of calls, and the environments, worlds and
  trees on which the theorems are instantiated.
\<close>

text \<open>
  The provider credential is present: \<open>secrets.digitalocean_key\<close> is there and
  truthy. The mods sequence is absent: the document is a mapping that either has
  no \<open>kag\<close> entry or whose \<open>kag\<close> entry is a mapping without a \<open>mods\<close> key.
\<close>

definition credential_present :: "yaml \<Rightarrow> bool" where
  "credential_present config =
     (case config of
        YDict kvs \<Rightarrow>
          (case map_of kvs ''secrets'' of
             Some (YDict ss) \<Rightarrow>
               (case map_of ss ''digitalocean_key'' of
                  Some key \<Rightarrow> truthy key
                | None \<Rightarrow> False)
           | _ \<Rightarrow> False)
      | _ \<Rightarrow> False)"

definition mods_absent :: "yaml \<Rightarrow> bool" where
  "mods_absent config =
     (case config of
        YDict kvs \<Rightarrow>
          (case map_of kvs ''kag'' of
             None \<Rightarrow> True
           | Some (YDict ks) \<Rightarrow> map_of ks ''mods'' = None
           | Some _ \<Rightarrow> False)
      | _ \<Rightarrow> False)"

text \<open>
  \<open>keeps R p\<close>: the world after \<open>p\<close> is \<open>R\<close>-related to the world before, whether
  \<open>p\<close> returns or raises. For a reflexive and transitive \<open>R\<close> the property passes
  through sequencing.
\<close>

definition keeps :: "(world \<Rightarrow> world \<Rightarrow> bool) \<Rightarrow> 'a prog \<Rightarrow> bool" where
  "keeps R p = (\<forall>w. R w (snd (p w)))"

text \<open>The relations used below: the clock does not go back.\<close>

definition clock_le :: "world \<Rightarrow> world \<Rightarrow> bool" where
  "clock_le w w' = (clock w \<le> clock w')"

text \<open>The calls that go to the provider or to the remote host.\<close>

fun is_remote :: "call \<Rightarrow> bool" where
  "is_remote SSHKeyCreate = True"
| "is_remote GetAllSshkeys = True"
| "is_remote DropletCreate = True"
| "is_remote DropletLoad = True"
| "is_remote DropletDestroy = True"
| "is_remote SshConnect = True"
| "is_remote (ExecCommand c) = True"
| "is_remote (ReadStdout c) = True"
| "is_remote (RecvExitStatus c) = True"
| "is_remote OpenSftp = True"
| "is_remote SftpFromTransport = True"
| "is_remote (SftpPut a b) = True"
| "is_remote (SftpMkdir a b) = True"
| "is_remote (SftpPutDir a b) = True"
| "is_remote (SftpGetRecursive a b) = True"
| "is_remote SftpClose = True"
| "is_remote SshClose = True"
| "is_remote CheckCallSsh = True"
| "is_remote WebinterfaceRun = True"
| "is_remote _ = False"

text \<open>
  \<open>same_on P w w'\<close>: the events of the calls in \<open>P\<close> are the same in both worlds,
  so no such call was made in between.
\<close>

definition same_on :: "(call \<Rightarrow> bool) \<Rightarrow> world \<Rightarrow> world \<Rightarrow> bool" where
  "same_on P w w' = (filter (\<lambda>ev. P (fst ev)) (trace w') = filter (\<lambda>ev. P (fst ev)) (trace w))"

text \<open>A program that raises from every world.\<close>

definition fails :: "'a prog \<Rightarrow> bool" where
  "fails p = (\<forall>w. isl (fst (p w)))"

text \<open>
  An environment in which no call raises, every command exits with status 0, every
  question is answered yes, no call takes time and the provider reports an active
  droplet; and a world with a fresh state, no event and no state file.
\<close>

definition quiet_env :: "yaml \<Rightarrow> env" where
  "quiet_env cfg =
     \<lparr>raises = (\<lambda>h c. None), took = (\<lambda>h c. 0), exit_code = (\<lambda>h c. 0),
      answer = (\<lambda>h c. True),
      api_droplet = (\<lambda>h. \<lparr>ip_address = Some ''203.0.113.7'', status = ''active''\<rparr>),
      uuid = (\<lambda>h. ''1b9d6bcd''), config_doc = cfg, mod_is_dir = (\<lambda>m. True)\<rparr>"

definition fresh_world :: world where
  "fresh_world = \<lparr>st = State_init, trace = [], clock = 0, state_file = None\<rparr>"

definition config_without_mods :: yaml where
  "config_without_mods =
     YDict
       [(''secrets'', YDict [(''digitalocean_key'', YStr ''dop_v1_token'')]),
        (''droplet'', YDict [(''name'', YStr ''kag'')]),
        (''kag'', YDict [(''autoconfig'', YDict [])])]"

text \<open>
  A complete configuration; a state in which the key and the droplet exist and the
  host setup is still to be done, and one in which it is done.
\<close>

definition full_config :: yaml where
  "full_config =
     YDict
       [(''secrets'', YDict [(''digitalocean_key'', YStr ''dop_v1_token'')]),
        (''droplet'', YDict [(''name'', YStr ''kag''), (''region'', YStr ''lon1'')]),
        (''kag'',
         YDict
           [(''autoconfig'', YDict [(''sv_name'', YStr ''My server'')]),
            (''mods'', YList []),
            (''security'',
             YDict [(''superadmins'', YList [YStr ''alice'']), (''admins'', YList [])])])]"

definition resumed_world :: world where
  "resumed_world =
     \<lparr>st = \<lparr>ssh_key_name = Some ''one_click_kag_server_1b9d6bcd'', ssh_key_uploaded = True,
             droplet = Some \<lparr>ip_address = Some ''203.0.113.7'', status = ''active''\<rparr>,
             done_droplet_setup = False, done_kag_setup = False\<rparr>,
      trace = [], clock = 0, state_file = None\<rparr>"

definition provisioned_world :: world where
  "provisioned_world =
     \<lparr>st = \<lparr>ssh_key_name = Some ''one_click_kag_server_1b9d6bcd'', ssh_key_uploaded = True,
             droplet = Some \<lparr>ip_address = Some ''203.0.113.7'', status = ''active''\<rparr>,
             done_droplet_setup = True, done_kag_setup = False\<rparr>,
      trace = [], clock = 0, state_file = None\<rparr>"

text \<open>
  The calls that belong to the steps gated by a state flag: creating and uploading
  the key pair, creating the droplet, the activation wait (the sleep between
  attempts and the trivial remote command) and the host setup (its SFTP channel and
  its two commands).
\<close>

definition gated_call :: "call \<Rightarrow> bool" where
  "gated_call c =
     (case c of
        Uuid4 \<Rightarrow> True
      | CreateSshKeypair \<Rightarrow> True
      | SSHKeyCreate \<Rightarrow> True
      | GetAllSshkeys \<Rightarrow> True
      | DropletCreate \<Rightarrow> True
      | TimeSleep n \<Rightarrow> True
      | OpenSftp \<Rightarrow> True
      | ExecCommand cmd \<Rightarrow>
          cmd = ''echo hello world'' \<or> cmd = ''chmod +x droplet_setup.sh''
          \<or> cmd = ''./droplet_setup.sh 2>&1''
      | _ \<Rightarrow> False)"



text \<open>
  An environment in which the droplet never becomes active: every \<open>load\<close> takes
  100 ms and reports the status \<open>new\<close>. The world is the one right after the
  droplet was created.
\<close>

definition stuck_env :: env where
  "stuck_env =
     \<lparr>raises = (\<lambda>h c. None),
      took = (\<lambda>h c. if c = DropletLoad then 100 else 0),
      exit_code = (\<lambda>h c. 0),
      answer = (\<lambda>h c. True),
      api_droplet = (\<lambda>h. \<lparr>ip_address = None, status = ''new''\<rparr>),
      uuid = (\<lambda>h. ''1b9d6bcd''), config_doc = full_config, mod_is_dir = (\<lambda>m. True)\<rparr>"

definition created_world :: world where
  "created_world =
     \<lparr>st = \<lparr>ssh_key_name = Some ''one_click_kag_server_1b9d6bcd'', ssh_key_uploaded = True,
             droplet = Some \<lparr>ip_address = None, status = ''new''\<rparr>,
             done_droplet_setup = False, done_kag_setup = False\<rparr>,
      trace = [], clock = 0, state_file = None\<rparr>"

text \<open>The state object is unchanged.\<close>

definition same_st :: "world \<Rightarrow> world \<Rightarrow> bool" where
  "same_st w w' = (st w' = st w)"

text \<open>
  An environment in which the setup script and the restart command exit with
  status 1, and everything else goes well.
\<close>

definition failing_scripts_env :: env where
  "failing_scripts_env =
     \<lparr>raises = (\<lambda>h c. None), took = (\<lambda>h c. 0),
      exit_code =
        (\<lambda>h c. if c = RecvExitStatus ''./droplet_setup.sh 2>&1''
                  \<or> c = RecvExitStatus ''docker-compose up -d 2>&1'' then 1 else 0),
      answer = (\<lambda>h c. True),
      api_droplet = (\<lambda>h. \<lparr>ip_address = Some ''203.0.113.7'', status = ''active''\<rparr>),
      uuid = (\<lambda>h. ''1b9d6bcd''), config_doc = full_config, mod_is_dir = (\<lambda>m. True)\<rparr>"




text \<open>An SSH session was established; \<open>ssh.close()\<close> was called.\<close>

definition session_opened :: "event \<Rightarrow> bool" where
  "session_opened ev = (ev = (SshConnect, Returned))"

definition session_closed :: "event \<Rightarrow> bool" where
  "session_closed ev = (fst ev = SshClose)"

text \<open>
  A run of \<open>up\<close> in which the key pair is created and uploaded and the creation of
  the droplet then fails.
\<close>

definition create_fails_env :: env where
  "create_fails_env =
     \<lparr>raises = (\<lambda>h c. if c = DropletCreate then Some (OtherError ''DataReadError'') else None),
      took = (\<lambda>h c. 0), exit_code = (\<lambda>h c. 0), answer = (\<lambda>h c. True),
      api_droplet = (\<lambda>h. \<lparr>ip_address = Some ''203.0.113.7'', status = ''active''\<rparr>),
      uuid = (\<lambda>h. ''1b9d6bcd''), config_doc = full_config, mod_is_dir = (\<lambda>m. True)\<rparr>"



text \<open>A cache directory with a nested directory, an empty directory and an empty file.\<close>

definition cache_tree :: node where
  "cache_tree =
     Dir [(''maps.cfg'', File ''ctf''),
          (''Maps'', Dir [(''a.png'', File ''PNG1''), (''empty'', Dir [])]),
          (''stats'', File [])]"

definition local_tree :: node where
  "local_tree = Dir [(''Cache'', cache_tree), (''config.yaml'', File ''kag'')]"

definition remote_home :: node where
  "remote_home = Dir [(''docker-compose.yaml'', File ''v3''), (''Cache'', Dir [])]"

section \<open>Relations that every step of a program keeps\<close>

lemma keepsD: "keeps R p \<Longrightarrow> R w (snd (p w))"
  by (simp add: keeps_def)

lemma keeps_ret: "reflp R \<Longrightarrow> keeps R (ret a)"
  by (simp add: keeps_def ret_def reflp_def)

lemma keeps_raise: "reflp R \<Longrightarrow> keeps R (raise e)"
  by (simp add: keeps_def raise_def reflp_def)

lemma keeps_eval_cfg: "reflp R \<Longrightarrow> keeps R (eval_cfg r)"
  by (simp add: keeps_def eval_cfg_def reflp_def split: sum.splits)

lemma keeps_require: "reflp R \<Longrightarrow> keeps R (require P e)"
  by (simp add: keeps_def require_def reflp_def)

lemma keeps_bind:
  assumes "transp R" "keeps R m" "\<And>a. keeps R (f a)"
  shows "keeps R (bind m f)"
  unfolding keeps_def
proof
  fix w
  show "R w (snd (bind m f w))"
  proof (cases "m w")
    case (Pair r w')
    have 1: "R w w'" using keepsD [OF assms(2), of w] Pair by simp
    show ?thesis
    proof (cases r)
      case (Inl e)
      then show ?thesis using Pair 1 by (simp add: bind_def)
    next
      case (Inr a)
      have "R w' (snd (f a w'))" using keepsD [OF assms(3)] .
      then show ?thesis using Pair Inr 1 assms(1) by (auto simp: bind_def dest: transpD)
    qed
  qed
qed

lemma keeps_seq_all:
  assumes "reflp R" "transp R" "\<And>p. p \<in> set ps \<Longrightarrow> keeps R p"
  shows "keeps R (seq_all ps)"
  using assms(3)
  by (induction ps) (auto intro: keeps_ret keeps_bind assms(1,2))

lemma keeps_try_finally:
  assumes "transp R" "keeps R body" "keeps R fin"
  shows "keeps R (try_finally body fin)"
  unfolding keeps_def
proof
  fix w
  obtain r w1 where b: "body w = (r, w1)" by (cases "body w")
  obtain r2 w2 where f: "fin w1 = (r2, w2)" by (cases "fin w1")
  have "R w w1" using keepsD [OF assms(2), of w] b by simp
  moreover have "R w1 w2" using keepsD [OF assms(3), of w1] f by simp
  ultimately have "R w w2" using assms(1) by (blast dest: transpD)
  then show "R w (snd (try_finally body fin w))"
    using b f by (simp add: try_finally_def split: sum.splits)
qed

lemma keeps_ext:
  assumes "\<And>w out. R w (record_event E c out w)"
  shows "keeps R (ext E c)"
  using assms by (simp add: keeps_def ext_def split: option.splits)

lemma keeps_recv:
  assumes "\<And>w out. R w (record_event E (RecvExitStatus cmd) out w)"
  shows "keeps R (recv_exit_status E cmd)"
  using assms by (simp add: keeps_def recv_exit_status_def Let_def split: option.splits)

lemma keeps_ask:
  assumes "\<And>w out. R w (record_event E c out w)"
  shows "keeps R (ask E c)"
  using assms by (simp add: keeps_def ask_def split: option.splits)

lemma keeps_assign:
  assumes "\<And>w. R w (w\<lparr>st := f (st w)\<rparr>)"
  shows "keeps R (assign f)"
  using assms by (simp add: keeps_def assign_def)

lemma keeps_assign_w:
  assumes "\<And>w s. R w (w\<lparr>st := s\<rparr>)"
  shows "keeps R (\<lambda>w. assign (f w) w)"
  using assms by (simp add: keeps_def assign_def)

lemma clock_le_pre: "reflp clock_le" "transp clock_le"
  by (auto simp: clock_le_def reflp_def transp_def)

lemma clock_le_event: "clock_le w (record_event E c out w)"
  by (simp add: clock_le_def record_event_def)

lemma clock_le_st: "clock_le w (w\<lparr>st := s\<rparr>)"
  by (simp add: clock_le_def)

lemma keeps_open_ssh: "keeps clock_le (open_ssh_connection E)"
  unfolding open_ssh_connection_def
  by (intro keeps_seq_all clock_le_pre) (auto intro!: keeps_require keeps_ext clock_le_pre clock_le_event)

lemma wait_attempt_clock: "keeps clock_le (wait_attempt E)"
  unfolding wait_attempt_def droplet_load_def
  by (intro keeps_seq_all clock_le_pre)
     (auto intro!: keeps_seq_all keeps_require keeps_ext keeps_bind keeps_recv keeps_ret keeps_assign_w keeps_open_ssh
        clock_le_pre clock_le_event clock_le_st)

section \<open>Lemmas on the configuration check and on runs\<close>

lemma credential_presentD:
  assumes "credential_present config"
  obtains kvs ss key where "config = YDict kvs" "map_of kvs ''secrets'' = Some (YDict ss)"
    "map_of ss ''digitalocean_key'' = Some key" "truthy key"
  using assms unfolding credential_present_def
  by (auto split: yaml.splits option.splits)

lemma mods_absentD:
  assumes "mods_absent (YDict kvs)"
  shows "map_of kvs ''kag'' = None \<or>
    (\<exists>ks. map_of kvs ''kag'' = Some (YDict ks) \<and> map_of ks ''mods'' = None)"
  using assms unfolding mods_absent_def
  by (auto split: yaml.splits option.splits)

lemma check_config_missing_mods:
  assumes "credential_present config" "mods_absent config"
  shows "check_config is_dir config = Inl TypeError"
proof -
  from assms(1) obtain kvs ss key where c: "config = YDict kvs"
    "map_of kvs ''secrets'' = Some (YDict ss)"
    "map_of ss ''digitalocean_key'' = Some key" "truthy key"
    by (rule credential_presentD)
  from mods_absentD [OF assms(2) [unfolded c(1)]] show ?thesis
  proof
    assume "map_of kvs ''kag'' = None"
    then show ?thesis using c by (simp add: check_config_def)
  next
    assume "\<exists>ks. map_of kvs ''kag'' = Some (YDict ks) \<and> map_of ks ''mods'' = None"
    then show ?thesis using c by (auto simp: check_config_def)
  qed
qed

lemma same_on_pre: "reflp (same_on P)" "transp (same_on P)"
  by (auto simp: same_on_def reflp_def transp_def)

lemma same_on_event: "\<not> P c \<Longrightarrow> same_on P w (record_event E c out w)"
  by (simp add: same_on_def record_event_def)

lemma same_on_st: "same_on P w (w\<lparr>st := s\<rparr>)"
  by (simp add: same_on_def)

lemma same_on_state_file: "same_on P w (w\<lparr>state_file := s\<rparr>)"
  by (simp add: same_on_def)

lemma fails_eval_cfg: "fails (eval_cfg (Inl e))"
  by (simp add: fails_def eval_cfg_def)

lemma fails_raise: "fails (raise e)"
  by (simp add: fails_def raise_def)

lemma fails_bind1: "fails m \<Longrightarrow> fails (bind m f)"
  unfolding fails_def bind_def
proof
  fix w assume a: "\<forall>w. isl (fst (m w))"
  show "isl (fst (case m w of (Inl e, w') \<Rightarrow> (Inl e, w') | (Inr a, w') \<Rightarrow> f a w'))"
    using a [rule_format, of w] by (cases "m w") (auto split: sum.splits)
qed

lemma fails_bind2: "(\<And>a. fails (f a)) \<Longrightarrow> fails (bind m f)"
  unfolding fails_def bind_def
proof
  fix w assume a: "\<And>a. \<forall>w. isl (fst (f a w))"
  show "isl (fst (case m w of (Inl e, w') \<Rightarrow> (Inl e, w') | (Inr a, w') \<Rightarrow> f a w'))"
    using a by (cases "m w") (auto split: sum.splits)
qed

lemma fails_seq_all: "p \<in> set ps \<Longrightarrow> fails p \<Longrightarrow> fails (seq_all ps)"
  by (induction ps) (auto intro: fails_bind1 fails_bind2)

lemma fails_if: "fails p \<Longrightarrow> fails q \<Longrightarrow> fails (if b then p else q)"
  by simp

lemma bind_fails: "fails m \<Longrightarrow> bind m f w = (Inl (projl (fst (m w))), snd (m w))"
  by (cases "m w") (auto simp: fails_def bind_def split: sum.splits dest: spec [of _ w])

lemma keeps_State_load:
  assumes "reflp R" "transp R" "\<And>w s. R w (w\<lparr>st := s\<rparr>)"
    "\<And>w out. R w (record_event E PickleLoad out w)"
  shows "keeps R (State_load E)"
proof -
  have 1: "keeps R (bind (ext E PickleLoad) (\<lambda>_. assign (\<lambda>_. s)))" for s
    by (intro keeps_bind keeps_ext keeps_assign assms)
  have 2: "keeps R (assign (\<lambda>_. State_init))"
    by (intro keeps_assign assms)
  show ?thesis
    using 1 2 by (auto simp: keeps_def State_load_def split: option.splits)
qed

lemma main_prelude_local: "keeps (same_on is_remote) (main_prelude E)"
  unfolding main_prelude_def
  by (intro keeps_bind keeps_ask keeps_seq_all same_on_pre)
     (auto intro!: keeps_raise keeps_ret keeps_bind keeps_seq_all keeps_ext keeps_assign
        keeps_eval_cfg keeps_State_load same_on_pre same_on_event same_on_st)

lemma main_prelude_fails:
  assumes "credential_present (config_doc E)" "mods_absent (config_doc E)"
  shows "fails (main_prelude E)"
  unfolding main_prelude_def
  apply (rule fails_bind2)
  apply (rule fails_if)
   apply (rule fails_raise)
  apply (rule fails_bind1)
  apply (rule fails_seq_all [where p = "eval_cfg (check_config (mod_is_dir E) (config_doc E))"])
   apply simp
  apply (simp add: check_config_missing_mods [OF assms] fails_eval_cfg)
  done

lemmas keeps_intros =
  keeps_seq_all keeps_bind keeps_try_finally keeps_ext keeps_recv keeps_ask keeps_assign
  keeps_assign_w keeps_ret keeps_raise keeps_eval_cfg keeps_require

lemma keeps_open_ssh_connection:
  assumes "reflp R" "transp R"
    "\<And>w out. R w (record_event E FromPrivateKeyFile out w)"
    "\<And>w out. R w (record_event E SshConnect out w)"
  shows "keeps R (open_ssh_connection E)"
  unfolding open_ssh_connection_def
  by (intro keeps_seq_all assms) (auto intro!: keeps_require keeps_ext assms)

lemma keeps_droplet_load:
  assumes "reflp R" "transp R" "\<And>w s. R w (w\<lparr>st := s\<rparr>)"
    "\<And>w out. R w (record_event E DropletLoad out w)"
  shows "keeps R (droplet_load E)"
  unfolding droplet_load_def
  by (intro keeps_seq_all assms) (auto intro!: keeps_require keeps_ext keeps_assign_w assms)

lemma setup_kag_derived_files_same_on:
  assumes "\<And>a. \<not> P (LocalOpen a)" "\<And>a. \<not> P (LocalWrite a)" "\<And>a. \<not> P (LocalRead a)"
    "\<And>a. \<not> P (LocalMkdir a)" "\<And>a b. \<not> P (LocalCopyfile a b)"
    "\<And>a b. \<not> P (SftpPut a b)" "\<And>a b. \<not> P (SftpMkdir a b)" "\<And>a b. \<not> P (SftpPutDir a b)"
  shows "keeps (same_on P) (setup_kag_derived_files E config)"
  unfolding setup_kag_derived_files_def
  by (intro keeps_seq_all same_on_pre)
     (auto intro!: keeps_ext keeps_eval_cfg same_on_pre same_on_event assms)

lemma droplet_load_flags:
  "done_droplet_setup (st (snd (droplet_load E w))) = done_droplet_setup (st w)
   \<and> done_kag_setup (st (snd (droplet_load E w))) = done_kag_setup (st w)"
  by (simp add: droplet_load_def bind_def require_def ext_def assign_def ret_def record_event_def
      split: option.splits)

lemma same_on_trans: "same_on P a b \<Longrightarrow> same_on P b c \<Longrightarrow> same_on P a c"
  by (simp add: same_on_def)

section \<open>The claims\<close>

subsection \<open>A configuration without the mods sequence\<close>

text \<open>
  Claim C10. A configuration document that has the provider credential but no
  \<open>kag.mods\<close> sequence is rejected: \<open>check_config\<close> raises (a \<open>TypeError\<close>, from
  iterating over \<open>None\<close>), so \<open>main\<close> ends with an exception, and up to that point
  it has made no call to the provider or to the remote host.
\<close>

theorem check_config_rejects_missing_mods:
  assumes "credential_present (config_doc E)" "mods_absent (config_doc E)"
  shows "check_config (mod_is_dir E) (config_doc E) = Inl TypeError
    \<and> isl (fst (main E cmd w))
    \<and> filter (\<lambda>ev. is_remote (fst ev)) (trace (snd (main E cmd w)))
        = filter (\<lambda>ev. is_remote (fst ev)) (trace w)"
proof -
  have f: "fails (main_prelude E)" by (rule main_prelude_fails [OF assms])
  have m: "main E cmd w = (Inl (projl (fst (main_prelude E w))), snd (main_prelude E w))"
    unfolding main_def by (rule bind_fails [OF f])
  have k: "same_on is_remote w (snd (main_prelude E w))"
    by (rule keepsD [OF main_prelude_local])
  show ?thesis
    using m k check_config_missing_mods [OF assms] by (simp add: same_on_def)
qed

theorem check_config_rejects_missing_mods_witness:
  "credential_present (config_doc (quiet_env config_without_mods))
   \<and> mods_absent (config_doc (quiet_env config_without_mods))
   \<and> check_config (mod_is_dir (quiet_env config_without_mods)) config_without_mods
       = Inl TypeError
   \<and> isl (fst (main (quiet_env config_without_mods) Up fresh_world))
   \<and> filter (\<lambda>ev. is_remote (fst ev))
        (trace (snd (main (quiet_env config_without_mods) Up fresh_world))) = []"
proof -
  have c: "config_doc (quiet_env config_without_mods) = config_without_mods"
    by (simp add: quiet_env_def)
  have h1: "credential_present (config_doc (quiet_env config_without_mods))"
    unfolding c by (simp add: credential_present_def config_without_mods_def)
  have h2: "mods_absent (config_doc (quiet_env config_without_mods))"
    unfolding c by (simp add: mods_absent_def config_without_mods_def)
  have t: "trace fresh_world = []" by (simp add: fresh_world_def)
  show ?thesis
    using check_config_rejects_missing_mods [OF h1 h2, of Up fresh_world] h1 h2
    by (simp add: c t)
qed

subsection \<open>Idempotence of \<open>run_command_up\<close>\<close>

lemma setup_kag_gated: "keeps (same_on gated_call) (setup_kag E config)"
  unfolding setup_kag_def
  by (intro keeps_seq_all same_on_pre)
     (auto intro!: keeps_intros keeps_open_ssh_connection setup_kag_derived_files_same_on
        same_on_pre same_on_event same_on_st simp: gated_call_def)

lemma droplet_load_gated: "keeps (same_on gated_call) (droplet_load E)"
  by (intro keeps_droplet_load same_on_pre same_on_st same_on_event) (simp add: gated_call_def)

text \<open>
  Claim C1. When the key is uploaded, the droplet handle is present and the host
  setup is done, \<open>run_command_up\<close> makes none of the gated calls, whatever the
  environment answers: no key pair is created or uploaded, no droplet is created,
  nothing is waited for and the host setup is not run.
\<close>

theorem second_up_skips_gated_steps:
  assumes "ssh_key_uploaded (st w)" "droplet (st w) \<noteq> None" "done_droplet_setup (st w)"
  shows "filter (\<lambda>ev. gated_call (fst ev)) (trace (snd (run_command_up E config w)))
       = filter (\<lambda>ev. gated_call (fst ev)) (trace w)"
proof -
  obtain r1 w1 where l: "droplet_load E w = (r1, w1)" by (cases "droplet_load E w")
  have d1: "done_droplet_setup (st w1)"
    using droplet_load_flags [of E w] l assms(3) by simp
  have s1: "same_on gated_call w w1"
    using droplet_load_gated [of E, THEN keepsD, of w] l by simp
  have s2: "same_on gated_call w1 (snd (setup_kag E config w1))"
    by (rule keepsD [OF setup_kag_gated])
  have "same_on gated_call w (snd (run_command_up E config w))"
  proof (cases r1)
    case (Inl e)
    then show ?thesis
      using assms l s1 by (simp add: run_command_up_def bind_def ret_def)
  next
    case (Inr u)
    then show ?thesis
      using assms l d1 s1 same_on_trans [OF s1 s2]
      by (auto simp: run_command_up_def bind_def ret_def split: prod.splits sum.splits)
  qed
  then show ?thesis by (simp add: same_on_def)
qed

theorem second_up_skips_gated_steps_witness:
  "ssh_key_uploaded (st provisioned_world) \<and> droplet (st provisioned_world) \<noteq> None
   \<and> done_droplet_setup (st provisioned_world)
   \<and> filter (\<lambda>ev. gated_call (fst ev))
        (trace (snd (run_command_up (quiet_env full_config) full_config provisioned_world))) = []"
proof -
  have h1: "ssh_key_uploaded (st provisioned_world)" by (simp add: provisioned_world_def)
  have h2: "droplet (st provisioned_world) \<noteq> None" by (simp add: provisioned_world_def)
  have h3: "done_droplet_setup (st provisioned_world)" by (simp add: provisioned_world_def)
  have t: "trace provisioned_world = []" by (simp add: provisioned_world_def)
  show ?thesis
    using second_up_skips_gated_steps [OF h1 h2 h3, of "quiet_env full_config" full_config]
      h1 h2 h3
    by (simp add: t)
qed

subsection \<open>When \<open>run_command_up\<close> waits for the droplet\<close>








declare retry_loop.simps [simp del]

















subsection \<open>The number of attempts of the activation wait\<close>

lemma retry_loop_bound:
  "start + 5000 * (n - 1) \<le> clock w \<Longrightarrow> retry_loop E start n w = (Inl e, w') \<Longrightarrow>
   \<exists>m x. e = RetryError m x \<and> n \<le> m \<and> m \<le> max n 25"
proof (induction E start n w rule: retry_loop.induct)
  case (1 E start n w)
  obtain r w1 where a: "wait_attempt E w = (r, w1)" by (cases "wait_attempt E w")
  have mono: "clock w \<le> clock w1"
    using wait_attempt_clock [of E, THEN keepsD, of w] a by (simp add: clock_le_def)
  show ?case
  proof (cases r)
    case (Inr v)
    then show ?thesis using "1.prems" a by (simp add: retry_loop.simps)
  next
    case (Inl x)
    show ?thesis
    proof (cases "120000 \<le> clock w1 - start")
      case True
      then show ?thesis using "1.prems" a Inl by (auto simp: retry_loop.simps)
    next
      case False
      have rec: "retry_loop E start (Suc n) (time_sleep E 5000 w1) = (Inl e, w')"
        using "1.prems" a Inl False by (simp add: retry_loop.simps)
      have inv: "start + 5000 * (Suc n - 1) \<le> clock (time_sleep E 5000 w1)"
        using "1.prems"(1) mono by (cases n) (simp_all add: time_sleep_def)
      from "1.IH" [OF a [symmetric] Inl False inv rec]
      obtain m y where m: "e = RetryError m y" "Suc n \<le> m" "m \<le> max (Suc n) 25" by blast
      have "n < 25"
      proof (rule ccontr)
        assume "\<not> n < 25"
        then have "start + 120000 \<le> clock w1" using "1.prems"(1) mono by simp
        then show False using False by simp
      qed
      then show ?thesis using m by auto
    qed
  qed
qed

lemma retry_loop_fails:
  "\<forall>w. isl (fst (wait_attempt E w)) \<Longrightarrow> isl (fst (retry_loop E start n w))"
proof (induction E start n w rule: retry_loop.induct)
  case (1 E start n w)
  obtain r w1 where a: "wait_attempt E w = (r, w1)" by (cases "wait_attempt E w")
  from "1.prems" a obtain x where r: "r = Inl x" by (cases r) (auto dest: spec [of _ w])
  show ?case
  proof (cases "120000 \<le> clock w1 - start")
    case True
    then show ?thesis using a r by (simp add: retry_loop.simps)
  next
    case False
    then show ?thesis
      using "1.IH" [OF a [symmetric] r False "1.prems"] a r by (simp add: retry_loop.simps)
  qed
qed

lemma stuck_attempt: "isl (fst (wait_attempt stuck_env w))"
  by (simp add: wait_attempt_def droplet_load_def bind_def require_def ext_def assign_def
      ret_def record_event_def droplet_active_def stuck_env_def)

lemma stuck_attempt_eq:
  "droplet (st w) \<noteq> None \<Longrightarrow> wait_attempt stuck_env w =
     (Inl (ValueError ''Droplet is not active yet''),
      w\<lparr>st := (st w)\<lparr>droplet := Some \<lparr>ip_address = None, status = ''new''\<rparr>\<rparr>,
        trace := trace w @ [(DropletLoad, Returned)], clock := clock w + 100\<rparr>)"
  by (simp add: wait_attempt_def droplet_load_def bind_def require_def ext_def assign_def
      ret_def record_event_def droplet_active_def stuck_env_def)

lemma stuck_sleep: "took stuck_env h (TimeSleep ms) = 0"
  by (simp add: stuck_env_def)

lemma stuck_run:
  "fst (wait_for_droplet_to_be_active stuck_env created_world)
     = Inl (RetryError 25 (ValueError ''Droplet is not active yet''))"
  by (simp add: wait_for_droplet_to_be_active_def retry_loop.simps stuck_attempt_eq
      time_sleep_def stuck_sleep created_world_def)

text \<open>
  Claim C5, as stated, fails: with interval 5 and deadline 120 the bound
  \<open>\<lceil>120/5\<rceil> = 24\<close> is exceeded. In the environment above every attempt fails,
  the 24th ends 117.4 s after the start (before the deadline), so a 25th is made;
  it ends at 122.5 s and the wait gives up, reporting attempt number 25.
\<close>

theorem wait_makes_25_attempts_counterexample:
  "fst (wait_for_droplet_to_be_active stuck_env created_world)
     = Inl (RetryError 25 (ValueError ''Droplet is not active yet''))
   \<and> \<not> (25 \<le> (120 + 5 - 1) div (5::nat))"
  using stuck_run by simp

text \<open>
  Claim C5, amended. When every attempt fails, \<open>wait_for_droplet_to_be_active\<close>
  returns (the retry loop is a total function) with the timeout failure
  \<open>RetryError\<close>, after at least one and at most \<open>120/5 + 1 = 25\<close> attempts.
\<close>

theorem wait_gives_up_within_25_attempts:
  assumes "\<forall>w. isl (fst (wait_attempt E w))"
  shows "\<exists>m x. fst (wait_for_droplet_to_be_active E w) = Inl (RetryError m x) \<and> 1 \<le> m \<and> m \<le> 25"
proof -
  obtain r w' where a: "retry_loop E (clock w) 1 w = (r, w')"
    by (cases "retry_loop E (clock w) 1 w")
  from retry_loop_fails [OF assms, of "clock w" 1 w] a obtain e where r: "r = Inl e"
    by (cases r) auto
  from retry_loop_bound [of "clock w" 1 w E e w'] a r
  obtain m x where "e = RetryError m x" "1 \<le> m" "m \<le> 25" by auto
  then show ?thesis using a r by (auto simp: wait_for_droplet_to_be_active_def)
qed

theorem wait_gives_up_within_25_attempts_witness:
  "(\<forall>w. isl (fst (wait_attempt stuck_env w)))
   \<and> (\<exists>m x. fst (wait_for_droplet_to_be_active stuck_env created_world)
          = Inl (RetryError m x) \<and> 1 \<le> m \<and> m \<le> 25)"
proof -
  have h: "\<forall>w. isl (fst (wait_attempt stuck_env w))" by (simp add: stuck_attempt)
  show ?thesis
    using wait_gives_up_within_25_attempts [OF h, of created_world] h by simp
qed

subsection \<open>A setup or restart command that exits with a non-zero status\<close>

lemma same_st_pre: "reflp same_st" "transp same_st"
  by (auto simp: same_st_def reflp_def transp_def)

lemma same_st_event: "same_st w (record_event E c out w)"
  by (simp add: same_st_def record_event_def)

lemma keeps_seq_allI:
  "reflp R \<Longrightarrow> transp R \<Longrightarrow> list_all (keeps R) ps \<Longrightarrow> keeps R (seq_all ps)"
  by (rule keeps_seq_all) (auto simp: list_all_iff)

lemma keeps_recv_ignored:
  assumes "reflp R" "transp R" "\<And>w out. R w (record_event E (RecvExitStatus cmd) out w)"
  shows "keeps R (bind (recv_exit_status E cmd) (\<lambda>_. ret ()))"
  by (intro keeps_bind keeps_recv keeps_ret assms)

lemma fails_bind_recv:
  assumes "\<forall>h. exit_code E h (RecvExitStatus cmd) \<noteq> 0" "\<And>n. n \<noteq> 0 \<Longrightarrow> fails (f n)"
  shows "fails (bind (recv_exit_status E cmd) f)"
  using assms
  by (auto simp: fails_def bind_def recv_exit_status_def Let_def split: option.splits)

lemma keeps_bind_recv:
  assumes "\<forall>h. exit_code E h (RecvExitStatus cmd) \<noteq> 0"
    "transp R" "\<And>w out. R w (record_event E (RecvExitStatus cmd) out w)"
    "\<And>n. n \<noteq> 0 \<Longrightarrow> keeps R (f n)"
  shows "keeps R (bind (recv_exit_status E cmd) f)"
  unfolding keeps_def
proof
  fix w
  let ?c = "RecvExitStatus cmd"
  show "R w (snd (bind (recv_exit_status E cmd) f w))"
  proof (cases "raises E (trace w) ?c")
    case (Some e)
    then show ?thesis using assms(3) by (simp add: bind_def recv_exit_status_def)
  next
    case None
    let ?n = "exit_code E (trace w) ?c"
    let ?w = "record_event E ?c (ExitStatus ?n) w"
    have "R w ?w" by (rule assms(3))
    moreover have "R ?w (snd (f ?n ?w))"
      using assms(1,4) by (auto dest: keepsD)
    ultimately show ?thesis
      using None assms(2) by (auto simp: bind_def recv_exit_status_def Let_def dest: transpD)
  qed
qed

lemma setup_droplet_nonzero:
  assumes "\<forall>h. exit_code E h (RecvExitStatus ''./droplet_setup.sh 2>&1'') \<noteq> 0"
  shows "fails (setup_droplet E config)" "keeps same_st (setup_droplet E config)"
proof -
  let ?tail = "\<lambda>status. seq_all
               [ext E SftpClose,
                ext E SshClose,
                if status \<noteq> 0 then raise (RuntimeError ''Droplet setup failed'')
                else assign (\<lambda>s. s\<lparr>done_droplet_setup := True\<rparr>)]"
  have t1: "fails (?tail n)" if "n \<noteq> 0" for n :: int
    using that by (intro fails_seq_all [where p = "raise (RuntimeError ''Droplet setup failed'')"])
      (simp_all add: fails_raise)
  have t2: "keeps same_st (?tail n)" if "n \<noteq> 0" for n :: int
    using that by (intro keeps_seq_all same_st_pre)
      (auto intro!: keeps_ext keeps_raise same_st_pre same_st_event)
  have l1: "fails (bind (recv_exit_status E ''./droplet_setup.sh 2>&1'') ?tail)"
    by (rule fails_bind_recv [OF assms t1])
  have l2: "keeps same_st (bind (recv_exit_status E ''./droplet_setup.sh 2>&1'') ?tail)"
    by (rule keeps_bind_recv [OF assms same_st_pre(2) same_st_event t2])
  show "fails (setup_droplet E config)"
    unfolding setup_droplet_def
    by (rule fails_seq_all [OF _ l1]) simp
  show "keeps same_st (setup_droplet E config)"
    unfolding setup_droplet_def
    by (intro keeps_seq_allI same_st_pre)
       (simp only: list.pred_inject,
        intro conjI TrueI l2 keeps_ext keeps_require keeps_recv_ignored
          keeps_open_ssh_connection same_st_pre same_st_event)
qed

lemma setup_kag_derived_files_same_st: "keeps same_st (setup_kag_derived_files E config)"
  unfolding setup_kag_derived_files_def
  by (intro keeps_seq_all same_st_pre)
     (auto intro!: keeps_ext keeps_eval_cfg same_st_pre same_st_event)

lemma setup_kag_nonzero:
  assumes "\<forall>h. exit_code E h (RecvExitStatus ''docker-compose up -d 2>&1'') \<noteq> 0"
  shows "fails (setup_kag E config)" "keeps same_st (setup_kag E config)"
proof -
  let ?tail = "\<lambda>status. if status \<noteq> 0 then raise (RuntimeError ''Failed to setup KAG'')
             else seq_all [ext E SshClose, assign (\<lambda>s. s\<lparr>done_kag_setup := True\<rparr>)]"
  have t1: "fails (?tail n)" if "n \<noteq> 0" for n :: int
    using that by (simp add: fails_raise)
  have t2: "keeps same_st (?tail n)" if "n \<noteq> 0" for n :: int
    using that by (simp add: keeps_raise same_st_pre)
  have l1: "fails (bind (recv_exit_status E ''docker-compose up -d 2>&1'') ?tail)"
    by (rule fails_bind_recv [OF assms t1])
  have l2: "keeps same_st (bind (recv_exit_status E ''docker-compose up -d 2>&1'') ?tail)"
    by (rule keeps_bind_recv [OF assms same_st_pre(2) same_st_event t2])
  show "fails (setup_kag E config)"
    unfolding setup_kag_def
    by (rule fails_seq_all [OF _ l1]) simp
  show "keeps same_st (setup_kag E config)"
    unfolding setup_kag_def
    by (intro keeps_seq_allI same_st_pre)
       (simp only: list.pred_inject,
        intro conjI TrueI l2 keeps_ext keeps_require keeps_recv_ignored keeps_try_finally
          keeps_open_ssh_connection setup_kag_derived_files_same_st same_st_pre same_st_event)
qed

text \<open>
  Claim C6. If the setup script (for \<open>setup_droplet\<close>) or the restart command (for
  \<open>setup_kag\<close>) reports a non-zero exit status whenever it is asked, the operation
  ends with an exception and the state object is exactly as it was: the completion
  flag has not been set, and no other flag has changed.
\<close>

theorem failed_setup_leaves_flags:
  "((\<forall>h. exit_code E h (RecvExitStatus ''./droplet_setup.sh 2>&1'') \<noteq> 0) \<longrightarrow>
      isl (fst (setup_droplet E config w)) \<and> st (snd (setup_droplet E config w)) = st w)
   \<and> ((\<forall>h. exit_code E h (RecvExitStatus ''docker-compose up -d 2>&1'') \<noteq> 0) \<longrightarrow>
      isl (fst (setup_kag E config w)) \<and> st (snd (setup_kag E config w)) = st w)"
  using setup_droplet_nonzero [of E config] setup_kag_nonzero [of E config]
  by (auto simp: fails_def keeps_def same_st_def)

lemmas run_defs =
  setup_droplet_def setup_kag_def setup_kag_derived_files_def
  open_ssh_connection_def droplet_load_def droplet_active_def
  bind_def ret_def raise_def ext_def recv_exit_status_def assign_def require_def eval_cfg_def
  try_finally_def record_event_def full_config_def
  index2_def index3_def as_mapping_def py_join_def iterate_def is_str_def Let_def

lemma failing_setup_droplet:
  "fst (setup_droplet failing_scripts_env full_config resumed_world)
     = Inl (RuntimeError ''Droplet setup failed'')"
  by (simp add: run_defs failing_scripts_env_def resumed_world_def)

lemma failing_setup_kag:
  "fst (setup_kag failing_scripts_env full_config resumed_world)
     = Inl (RuntimeError ''Failed to setup KAG'')"
  by (simp add: run_defs failing_scripts_env_def resumed_world_def)

theorem failed_setup_leaves_flags_witness:
  "(\<forall>h. exit_code failing_scripts_env h (RecvExitStatus ''./droplet_setup.sh 2>&1'') \<noteq> 0)
   \<and> fst (setup_droplet failing_scripts_env full_config resumed_world)
       = Inl (RuntimeError ''Droplet setup failed'')
   \<and> st (snd (setup_droplet failing_scripts_env full_config resumed_world)) = st resumed_world
   \<and> (\<forall>h. exit_code failing_scripts_env h (RecvExitStatus ''docker-compose up -d 2>&1'') \<noteq> 0)
   \<and> fst (setup_kag failing_scripts_env full_config resumed_world)
       = Inl (RuntimeError ''Failed to setup KAG'')
   \<and> st (snd (setup_kag failing_scripts_env full_config resumed_world)) = st resumed_world"
proof -
  have h1: "\<forall>h. exit_code failing_scripts_env h (RecvExitStatus ''./droplet_setup.sh 2>&1'') \<noteq> 0"
    by (simp add: failing_scripts_env_def)
  have h2: "\<forall>h. exit_code failing_scripts_env h (RecvExitStatus ''docker-compose up -d 2>&1'') \<noteq> 0"
    by (simp add: failing_scripts_env_def)
  show ?thesis
    using failed_setup_leaves_flags [of failing_scripts_env full_config resumed_world] h1 h2
      failing_setup_droplet failing_setup_kag
    by simp
qed

subsection \<open>The order of download and destruction in \<open>run_command_down\<close>\<close>


subsection \<open>Sessions that are opened and not closed\<close>

text \<open>
  Claim C9 does not hold of the code. \<open>setup_kag\<close> raises on a non-zero exit
  status of the restart before it reaches \<open>ssh.close()\<close>: in the run below one
  session is opened and none is closed. \<open>setup_droplet\<close>, in the same environment,
  closes its session before it looks at the exit status.
\<close>

theorem setup_kag_leaves_session_open:
  "fst (setup_kag failing_scripts_env full_config resumed_world)
     = Inl (RuntimeError ''Failed to setup KAG'')
   \<and> length (filter session_opened
        (trace (snd (setup_kag failing_scripts_env full_config resumed_world)))) = 1
   \<and> length (filter session_closed
        (trace (snd (setup_kag failing_scripts_env full_config resumed_world)))) = 0
   \<and> fst (setup_droplet failing_scripts_env full_config resumed_world)
     = Inl (RuntimeError ''Droplet setup failed'')
   \<and> length (filter session_opened
        (trace (snd (setup_droplet failing_scripts_env full_config resumed_world)))) = 1
   \<and> length (filter session_closed
        (trace (snd (setup_droplet failing_scripts_env full_config resumed_world)))) = 1"
  by (simp add: run_defs failing_scripts_env_def resumed_world_def session_opened_def
      session_closed_def)

subsection \<open>The \<open>finally\<close> block of \<open>main\<close>\<close>

text \<open>
  Claim C4. Once \<open>main\<close> has reached its \<open>try\<close> block, and provided the two
  statements of the \<open>finally\<close> block themselves do not raise, \<open>main\<close> ends as the
  command ended (returning, or raising the same exception), and by then the state
  file holds the state object as the command left it: whatever a completed step
  has set is in the file.
\<close>

theorem main_saves_state:
  assumes "main_prelude E w = (Inr config, w1)"
    "\<forall>h. raises E h Chdir = None" "\<forall>h. raises E h PickleDump = None"
  shows "fst (main E cmd w) = fst (dispatch E config cmd w1)
    \<and> st (snd (main E cmd w)) = st (snd (dispatch E config cmd w1))
    \<and> state_file (snd (main E cmd w)) = Some (st (snd (dispatch E config cmd w1)))"
  using assms
  by (cases "dispatch E config cmd w1")
     (simp add: main_def bind_def try_finally_def ext_def State_save_def record_event_def ret_def)

lemma create_fails_prelude:
  "fst (main_prelude create_fails_env fresh_world) = Inr full_config"
  by (simp add: main_prelude_def ask_def State_load_def check_config_def
      bind_def ret_def raise_def ext_def assign_def eval_cfg_def record_event_def
      create_fails_env_def fresh_world_def full_config_def)

lemma create_fails_main:
  "fst (main create_fails_env Up fresh_world) = Inl (OtherError ''DataReadError'')"
  "state_file (snd (main create_fails_env Up fresh_world)) =
     Some \<lparr>ssh_key_name = Some ''one_click_kag_server_1b9d6bcd'', ssh_key_uploaded = True,
           droplet = None, done_droplet_setup = False, done_kag_setup = False\<rparr>"
  by (simp_all add: main_def main_prelude_def ask_def State_load_def State_save_def
      check_config_def run_command_up_def configure_ssh_key_def create_droplet_def
      no_key_name_def digitalocean_key_def State_init_def
      bind_def ret_def raise_def ext_def assign_def require_def eval_cfg_def try_finally_def
      record_event_def index2_def as_mapping_def
      create_fails_env_def fresh_world_def full_config_def)

theorem main_saves_state_witness:
  "main_prelude create_fails_env fresh_world
     = (Inr full_config, snd (main_prelude create_fails_env fresh_world))
   \<and> (\<forall>h. raises create_fails_env h Chdir = None)
   \<and> (\<forall>h. raises create_fails_env h PickleDump = None)
   \<and> fst (main create_fails_env Up fresh_world) = Inl (OtherError ''DataReadError'')
   \<and> fst (dispatch create_fails_env full_config Up (snd (main_prelude create_fails_env fresh_world)))
       = Inl (OtherError ''DataReadError'')
   \<and> state_file (snd (main create_fails_env Up fresh_world)) =
       Some \<lparr>ssh_key_name = Some ''one_click_kag_server_1b9d6bcd'', ssh_key_uploaded = True,
             droplet = None, done_droplet_setup = False, done_kag_setup = False\<rparr>
   \<and> st (snd (dispatch create_fails_env full_config Up
        (snd (main_prelude create_fails_env fresh_world)))) =
       \<lparr>ssh_key_name = Some ''one_click_kag_server_1b9d6bcd'', ssh_key_uploaded = True,
        droplet = None, done_droplet_setup = False, done_kag_setup = False\<rparr>"
proof -
  have p: "main_prelude create_fails_env fresh_world
     = (Inr full_config, snd (main_prelude create_fails_env fresh_world))"
    using create_fails_prelude by (cases "main_prelude create_fails_env fresh_world") simp
  have h1: "\<forall>h. raises create_fails_env h Chdir = None" by (simp add: create_fails_env_def)
  have h2: "\<forall>h. raises create_fails_env h PickleDump = None" by (simp add: create_fails_env_def)
  show ?thesis
    using main_saves_state [OF p h1 h2, of Up] p h1 h2 create_fails_main
    by simp
qed

subsection \<open>What the two mirrors compute\<close>

declare put_dir.simps [simp del] get_recursive.simps [simp del]

lemma map_of_set_entry [simp]: "map_of (set_entry x n es) x = Some n"
  by (induction es) auto

lemma set_entry_twice [simp]: "set_entry x n (set_entry x m es) = set_entry x n es"
  by (induction es) auto





























lemma upload_example:
  "put_dir local_tree [''Cache''] [''Cache''] remote_home =
     Inr (Dir [(''docker-compose.yaml'', File ''v3''), (''Cache'', cache_tree)])"
  by (simp add: put_dir.simps os_listdir_def os_path_isfile_def sftp_put_def read_file_def
      write_file_def mkdir_def sftp_mkdir_def local_tree_def remote_home_def cache_tree_def)

lemma download_example:
  "get_recursive (Dir [(''docker-compose.yaml'', File ''v3''), (''Cache'', cache_tree)])
      [''Cache''] [''Restored''] (Dir [])
     = Inr (Dir [(''Restored'', cache_tree)])"
  by (simp add: get_recursive.simps listdir_attr_def is_directory_def os_path_isdir_def sftp_get_def
      read_file_def write_file_def cache_tree_def)


subsection \<open>\<open>mkdir\<close> with \<open>ignore_existing\<close>\<close>

lemma mkdir_ignore_existing_never_raises: "\<exists>R'. mkdir R p True = Inr R'"
  by (auto simp: mkdir_def sftp_mkdir_def split: sum.splits exn.splits option.splits)

text \<open>
  Claim C7 does not hold of the code. On a remote file system without the
  directory \<open>nodir\<close>, creating \<open>nodir/Mods\<close> fails in the SFTP client with
  "no such file", which is not "already exists"; \<open>mkdir\<close> with
  \<open>ignore_existing=True\<close> swallows it and returns normally, and the directory
  still does not exist.
\<close>

theorem mkdir_swallows_missing_parent:
  "sftp_mkdir (Dir []) [''nodir'', ''Mods''] = Inl (IOError ENOENT)
   \<and> mkdir (Dir []) [''nodir'', ''Mods''] True = Inr (Dir [])
   \<and> lookup (Dir []) [''nodir'', ''Mods''] = None"
  by (simp add: mkdir_def sftp_mkdir_def parent_error_def)

end
